theory Spec2Isabelle
  imports Main "HOL-Library.AList"
begin

section \<open>Data model\<close>

text \<open>
  The post-order dispatcher of the SDK (class \<open>PostOrderHandler\<close>) and the types it
  works on. A JavaScript object with open contents (the marketplace payload
  \<open>order.data\<close>, a set of HTTP headers) is an association list in insertion order;
  an optional field is an \<open>option\<close>; a thrown value is an \<open>exception\<close>.
\<close>

datatype EVMChain = ETH

fun chain_value :: "EVMChain \<Rightarrow> string" where
  "chain_value ETH = ''eth''"

datatype json =
    JNull
  | JBool bool
  | JNumber int
  | JString string
  | JArray "json list"
  | JObject "(string \<times> json) list"

text \<open>
  \<open>OrderKind\<close> is declared in the module \<open>@/types\<close>; the dispatcher names four of
  its members. Every further member is \<open>OtherKind\<close>.
\<close>

datatype OrderKind = SeaportV15 | LooksRareV2 | X2Y2 | Blur | OtherKind string

record Order =
  kind :: OrderKind
  data :: "(string \<times> json) list"

record BulkProof =
  orderIndex :: int
  merkleProof :: "string list"

record BulkData =
  bulk_kind :: string
  bulk_data :: BulkProof

record ExtraArgs =
  version :: string

record PostOrderReq =
  order :: Order
  signature :: "string option"
  bulkData :: "BulkData option"
  extraArgs :: ExtraArgs

record 'k ListingIndexerConfig =
  apiKey :: string
  chain :: "EVMChain option"
  baseUrl :: "string option"
  openSeaApiKeyConfig :: "'k option"
  looksRareApiKeyConfig :: "'k option"
  x2y2ApiKeyConfig :: "'k option"

text \<open>The response envelope \<open>{code, msg, data}\<close> of the aggregator backend.\<close>

record 'r AggregatorApiStatusResponse =
  code :: string
  msg :: string
  res_data :: 'r

text \<open>
  Thrown values. \<open>InvalidParamError name message\<close> is what
  \<open>BaseException.invalidParamError(name, message)\<close> builds,
  \<open>AggregatorApiException msg code path\<close> is the backend failure, and
  \<open>OtherError\<close> is anything a collaborator (HTTP client, marketplace handler)
  rejects with.
\<close>

datatype exception =
    InvalidParamError string string
  | AggregatorApiException string string string
  | OtherError string

type_synonym headers = "(string \<times> string) list"

text \<open>
  \<open>HTTPClient.post(url, data, headers)\<close>: the settlement of the promise it
  returns, \<open>Inl\<close> for a rejection.
\<close>

type_synonym ('p, 'r) HTTPClient =
  "string \<Rightarrow> 'p \<Rightarrow> headers \<Rightarrow> exception + 'r AggregatorApiStatusResponse"

text \<open>The three protocol handlers, each built from the client and one API-key config.\<close>

datatype ('c, 'k) IPostOrderHandler =
    SeaportV1D5Handler 'c 'k
  | LooksRareV2Handler 'c 'k
  | X2Y2Handler 'c 'k

record ('c, 'k) PostOrderHandler =
  client :: 'c
  config :: "'k ListingIndexerConfig"
  handlers :: "OrderKind \<rightharpoonup> ('c, 'k) IPostOrderHandler"

text \<open>
  What the dispatcher imports from other modules: the constant \<open>BASE_URL\<close> of
  \<open>@/common\<close>, \<open>splitSignature\<close> of the ethers library (\<open>None\<close> when it throws,
  otherwise the fields \<open>v\<close>, \<open>r\<close>, \<open>s\<close>), the Seaport helper
  \<open>encodeBulkOrderProofAndSignature\<close> of \<open>./utils\<close> (\<open>None\<close> when it throws), the
  \<open>handle\<close> method of the protocol handlers of \<open>./handler\<close> (the settlement of the
  promise it returns) and the string value of an \<open>OrderKind\<close> member. They are
  parameters of the model.
\<close>

record 'h Imports =
  BASE_URL :: string
  splitSignature :: "string \<Rightarrow> (int \<times> string \<times> string) option"
  encodeBulkOrderProofAndSignature :: "int \<Rightarrow> string list \<Rightarrow> string \<Rightarrow> string option"
  handler_handle :: "'h \<Rightarrow> Order \<Rightarrow> exception + json"
  orderKind_value :: "OrderKind \<Rightarrow> string"

section \<open>Effects\<close>

text \<open>
  What a call does besides settling: the requests handed to the HTTP client, the
  console output and the calls of a protocol handler's \<open>handle\<close>, in program order.
\<close>

datatype ('p, 'r, 'h) effect =
    is_ClientPost: ClientPost string 'p headers
  | is_ConsoleInfo: ConsoleInfo string 'r
  | is_HandlerHandle: HandlerHandle 'h Order

text \<open>
  The outcome of \<open>post\<close>: how its promise settles, the dispatcher object after the
  call, and the effects.
\<close>

record ('a, 'd, 'e) outcome =
  settled :: "exception + 'a"
  this_out :: 'd
  effects :: "'e list"

text \<open>
  The outcome of \<open>handle\<close> has two more parts: the request object as the call leaves
  it (\<open>order.data\<close> is assigned in place), and the settlements of the promises the
  call started and dropped without awaiting them.
\<close>

record ('a, 'd, 'e) handle_outcome = "('a, 'd, 'e) outcome" +
  params_out :: PostOrderReq
  unawaited :: "(exception + json) list"

section \<open>The dispatcher\<close>

definition new_PostOrderHandler ::
  "'c \<Rightarrow> 'k ListingIndexerConfig \<Rightarrow> ('c, 'k) PostOrderHandler" where
  "new_PostOrderHandler c cfg =
     (let h0 = Map.empty;
          h1 = (case openSeaApiKeyConfig cfg of
                  Some k \<Rightarrow> h0(SeaportV15 \<mapsto> SeaportV1D5Handler c k)
                | None \<Rightarrow> h0);
          h2 = (case looksRareApiKeyConfig cfg of
                  Some k \<Rightarrow> h1(LooksRareV2 \<mapsto> LooksRareV2Handler c k)
                | None \<Rightarrow> h1);
          h3 = (case x2y2ApiKeyConfig cfg of
                  Some k \<Rightarrow> h2(X2Y2 \<mapsto> X2Y2Handler c k)
                | None \<Rightarrow> h2)
      in \<lparr>client = c, config = cfg, handlers = h3\<rparr>)"

definition get_headers :: "('c, 'k) PostOrderHandler \<Rightarrow> headers" where
  "get_headers this = [(''X-API-KEY'', apiKey (config this)), (''X-FROM'', ''js_sdk'')]"

definition get_url :: "'h Imports \<Rightarrow> ('c, 'k) PostOrderHandler \<Rightarrow> string" where
  "get_url I this =
     (case baseUrl (config this) of Some b \<Rightarrow> b | None \<Rightarrow> BASE_URL I)
       @ ''/aggregator'' @ ''/v1'' @ ''/''
       @ chain_value (case chain (config this) of Some c \<Rightarrow> c | None \<Rightarrow> ETH)
       @ ''/nft''"

definition post ::
  "'h Imports \<Rightarrow> (('p, 'r) HTTPClient, 'k) PostOrderHandler \<Rightarrow> string \<Rightarrow> 'p
     \<Rightarrow> ('r, (('p, 'r) HTTPClient, 'k) PostOrderHandler, ('p, 'r, 'h) effect) outcome" where
  "post I this path params =
     (let sent = ClientPost (get_url I this @ path) params (get_headers this)
      in case client this (get_url I this @ path) params (get_headers this) of
           Inl e \<Rightarrow> \<lparr>settled = Inl e, this_out = this, effects = [sent]\<rparr>
         | Inr response \<Rightarrow>
             if code response = ''SUCCESS''
             then \<lparr>settled = Inr (res_data response), this_out = this, effects = [sent]\<rparr>
             else \<lparr>settled = Inl (AggregatorApiException (msg response) (code response) path),
                   this_out = this, effects = [sent]\<rparr>)"

text \<open>
  The object literal \<open>{...data, signature, v, r, s}\<close>: the properties of \<open>data\<close>,
  then the four assignments, each replacing the property of that name where it is or
  adding it at the end.
\<close>

definition spread_signature ::
  "(string \<times> json) list \<Rightarrow> string \<Rightarrow> int \<Rightarrow> string \<Rightarrow> string \<Rightarrow> (string \<times> json) list" where
  "spread_signature d sig v r s =
     AList.update ''s'' (JString s)
       (AList.update ''r'' (JString r)
         (AList.update ''v'' (JNumber v)
           (AList.update ''signature'' (JString sig) d)))"

definition set_data :: "PostOrderReq \<Rightarrow> (string \<times> json) list \<Rightarrow> PostOrderReq" where
  "set_data params d = params\<lparr>order := (order params)\<lparr>data := d\<rparr>\<rparr>"

text \<open>The test \<open>params.bulkData?.kind === 'seaport-v1.5'\<close>.\<close>

definition is_seaport_bulk :: "PostOrderReq \<Rightarrow> bool" where
  "is_seaport_bulk params =
     (case bulkData params of None \<Rightarrow> False | Some b \<Rightarrow> bulk_kind b = ''seaport-v1.5'')"

text \<open>
  The \<open>try\<close> block of case \<open>'v3'\<close>, entered under \<open>if (signature)\<close>, that is with a
  signature that is defined and not the empty string: \<open>Inl\<close> is the error thrown from
  its \<open>catch\<close>, \<open>Inr\<close> the request after the assignment.
\<close>

definition embed_v3 :: "'h Imports \<Rightarrow> PostOrderReq \<Rightarrow> string \<Rightarrow> exception + PostOrderReq" where
  "embed_v3 I params sig =
     (case splitSignature I sig of
        None \<Rightarrow> Inl (InvalidParamError ''signature'' (''invalid signature '' @ sig))
      | Some (v, r, s) \<Rightarrow>
          Inr (set_data params (spread_signature (data (order params)) sig v r s)))"

text \<open>The \<open>try\<close> block of case \<open>'v4'\<close>: the split comes first, also for a bulk order.\<close>

definition embed_v4 :: "'h Imports \<Rightarrow> PostOrderReq \<Rightarrow> string \<Rightarrow> exception + PostOrderReq" where
  "embed_v4 I params sig =
     (case splitSignature I sig of
        None \<Rightarrow> Inl (InvalidParamError ''signature'' (''invalid signature '' @ sig))
      | Some (v, r, s) \<Rightarrow>
          (case bulkData params of
             Some b \<Rightarrow>
               if bulk_kind b = ''seaport-v1.5''
               then (case encodeBulkOrderProofAndSignature I
                            (orderIndex (bulk_data b)) (merkleProof (bulk_data b)) sig of
                       None \<Rightarrow> Inl (InvalidParamError ''signature'' (''invalid signature '' @ sig))
                     | Some packed \<Rightarrow>
                         Inr (set_data params
                                (AList.update ''signature'' (JString packed) (data (order params)))))
               else Inr (set_data params (spread_signature (data (order params)) sig v r s))
           | None \<Rightarrow> Inr (set_data params (spread_signature (data (order params)) sig v r s))))"

text \<open>
  The statement \<open>handler.handle(params.order)\<close> followed by \<open>break\<close>: the handler is
  called with the order as it is now, the promise it returns is neither awaited nor
  returned, and the dispatcher's own promise resolves with \<open>undefined\<close> (\<open>None\<close>).
\<close>

definition call_handler ::
  "'h Imports \<Rightarrow> 'd \<Rightarrow> 'h \<Rightarrow> PostOrderReq \<Rightarrow> (json option, 'd, ('p, 'r, 'h) effect) handle_outcome" where
  "call_handler I this handler params =
     \<lparr>settled = Inr None, this_out = this,
      effects = [HandlerHandle handler (order params)],
      params_out = params,
      unawaited = [handler_handle I handler (order params)]\<rparr>"

definition throw ::
  "'d \<Rightarrow> PostOrderReq \<Rightarrow> exception \<Rightarrow> (json option, 'd, ('p, 'r, 'h) effect) handle_outcome" where
  "throw this params e =
     \<lparr>settled = Inl e, this_out = this, effects = [], params_out = params, unawaited = []\<rparr>"

definition handle ::
  "(((PostOrderReq, 'r) HTTPClient, 'k) IPostOrderHandler) Imports
     \<Rightarrow> ((PostOrderReq, 'r) HTTPClient, 'k) PostOrderHandler
     \<Rightarrow> PostOrderReq
     \<Rightarrow> (json option, ((PostOrderReq, 'r) HTTPClient, 'k) PostOrderHandler,
          (PostOrderReq, 'r, ((PostOrderReq, 'r) HTTPClient, 'k) IPostOrderHandler) effect)
         handle_outcome" where
  "handle I this params =
     (if kind (order params) = Blur then
        (let posted = post I this ''/post-order/v1'' params
         in case settled posted of
              Inl e \<Rightarrow>
                \<lparr>settled = Inl e, this_out = this_out posted, effects = effects posted,
                 params_out = params, unawaited = []\<rparr>
            | Inr res \<Rightarrow>
                \<lparr>settled = Inr (Some (JObject [(''message'', JString ''blur'')])),
                 this_out = this_out posted,
                 effects = effects posted @ [ConsoleInfo ''res'' res],
                 params_out = params, unawaited = []\<rparr>)
      else
        (case handlers this (kind (order params)) of
           None \<Rightarrow>
             throw this params
               (InvalidParamError ''order.kind''
                  (''unsupported orderKind '' @ orderKind_value I (kind (order params))))
         | Some handler \<Rightarrow>
             if version (extraArgs params) = ''v3'' then
               (case signature params of
                  None \<Rightarrow> call_handler I this handler params
                | Some sig \<Rightarrow>
                    if sig = [] then call_handler I this handler params
                    else (case embed_v3 I params sig of
                            Inl e \<Rightarrow> throw this params e
                          | Inr params' \<Rightarrow> call_handler I this handler params'))
             else if version (extraArgs params) = ''v4'' then
               (case signature params of
                  None \<Rightarrow> call_handler I this handler params
                | Some sig \<Rightarrow>
                    if sig = [] then call_handler I this handler params
                    else (case embed_v4 I params sig of
                            Inl e \<Rightarrow> throw this params e
                          | Inr params' \<Rightarrow> call_handler I this handler params'))
             else
               throw this params
                 (InvalidParamError ''extraArgs.version''
                    (''unsupported version '' @ version (extraArgs params)))))"

section \<open>The listing indexer\<close>

text \<open>
  Modelled from the spec: the message of an \<open>InvalidParamError\<close>. The class is in the
  module \<open>@/exceptions\<close>, of which the dispatcher and the tests are the only users
  here; the test \<open>empty prepare listing\<close> expects the text
  \<open>The param 'nfts' is invalid. nfts should not be empty\<close>.
\<close>

definition invalidParamError_message :: "string \<Rightarrow> string \<Rightarrow> string" where
  "invalidParamError_message name reason =
     ''The param '' @ [CHR 0x27] @ name @ [CHR 0x27] @ '' is invalid. '' @ reason"

text \<open>
  Modelled from the spec: \<open>ListingIndexerStable.prepareListing\<close>, known here by its
  test only. The spec: it fails with \<open>InvalidParamError\<close> if \<open>nfts\<close> is empty;
  otherwise it queries the aggregator for each NFT and classifies it. The query and
  the classification are the parameter \<open>classify\<close>, which gives the result and the
  network effects.
\<close>

definition prepareListing ::
  "('n list \<Rightarrow> (exception + 's) \<times> 'e list) \<Rightarrow> 'n list \<Rightarrow> (exception + 's) \<times> 'e list" where
  "prepareListing classify nfts =
     (if nfts = [] then (Inl (InvalidParamError ''nfts'' ''nfts should not be empty''), [])
      else classify nfts)"

text \<open>
  Modelled from the spec: \<open>ListingIndexerStable.bulkListing\<close>, known here by its
  test only. The spec: for each item it signs and forwards to
  \<open>postListingOrder\<close>, and records the index into \<open>successIndexes\<close> or \<open>failIndexes\<close> by
  the item's outcome; an item's failure is caught at the batch boundary; the call
  itself throws only for a validation error of the whole call, such as empty input.
  The attempt on one item (sign, then post) is the parameter \<open>attempt\<close>.
\<close>

fun listing_loop ::
  "('o \<Rightarrow> exception + 'a) \<Rightarrow> 'o list \<Rightarrow> nat \<Rightarrow> nat list \<Rightarrow> nat list \<Rightarrow> nat list \<times> nat list" where
  "listing_loop attempt [] i successIndexes failIndexes = (successIndexes, failIndexes)"
| "listing_loop attempt (x # xs) i successIndexes failIndexes =
     (case attempt x of
        Inl e \<Rightarrow> listing_loop attempt xs (Suc i) successIndexes (failIndexes @ [i])
      | Inr y \<Rightarrow> listing_loop attempt xs (Suc i) (successIndexes @ [i]) failIndexes)"

definition bulkListing ::
  "('o \<Rightarrow> exception + 'a) \<Rightarrow> 'o list \<Rightarrow> exception + nat list \<times> nat list" where
  "bulkListing attempt orders =
     (if orders = [] then Inl (InvalidParamError ''nfts'' ''nfts should not be empty'')
      else Inr (listing_loop attempt orders 0 [] []))"

text \<open>
  Modelled from the spec: \<open>ListingIndexerStable.postListingOrder\<close>, known here by the
  spec only. The spec: a thin delegate to the post-order dispatcher, whose thrown
  errors go to the failure bucket. The attempt on a signed order is then the
  settlement of the dispatcher's \<open>handle\<close>.
\<close>

definition postListingOrder ::
  "(((PostOrderReq, 'r) HTTPClient, 'k) IPostOrderHandler) Imports
     \<Rightarrow> ((PostOrderReq, 'r) HTTPClient, 'k) PostOrderHandler
     \<Rightarrow> PostOrderReq \<Rightarrow> exception + json option" where
  "postListingOrder I this params = settled (handle I this params)"

section \<open>Concrete collaborators\<close>

text \<open>
  \<open>splitSignature\<close> of the ethers library (version 5) on a string, as the library
  documents it: a string that is not \<open>0x\<close> followed by an even number of hexadecimal
  digits, or that does not hold 64 or 65 bytes, is refused; 65 bytes are \<open>r\<close>, \<open>s\<close> and
  the byte \<open>v\<close>, where 0 and 1 stand for 27 and 28 and any other value below 27 is
  refused; 64 bytes are the compact form, with the parity of \<open>v\<close> in the top bit of
  \<open>s\<close>. The theorems on the dispatcher hold for every \<open>splitSignature\<close>; this one
  is used where a concrete request is run.
\<close>

definition hex_value :: "char \<Rightarrow> nat option" where
  "hex_value c =
     (let n = (of_char c :: nat)
      in if 48 \<le> n \<and> n \<le> 57 then Some (n - 48)
         else if 97 \<le> n \<and> n \<le> 102 then Some (n - 87)
         else if 65 \<le> n \<and> n \<le> 70 then Some (n - 55)
         else None)"

fun hex_bytes :: "string \<Rightarrow> nat list option" where
  "hex_bytes [] = Some []"
| "hex_bytes [c] = None"
| "hex_bytes (a # b # cs) =
     (case hex_value a of
        None \<Rightarrow> None
      | Some hi \<Rightarrow>
          (case hex_value b of
             None \<Rightarrow> None
           | Some lo \<Rightarrow>
               (case hex_bytes cs of
                  None \<Rightarrow> None
                | Some bs \<Rightarrow> Some ((16 * hi + lo) # bs))))"

definition arrayify :: "string \<Rightarrow> nat list option" where
  "arrayify x =
     (case x of
        a # b # cs \<Rightarrow> if a = CHR ''0'' \<and> b = CHR ''x'' then hex_bytes cs else None
      | _ \<Rightarrow> None)"

definition hex_digit :: "nat \<Rightarrow> char" where
  "hex_digit n = ''0123456789abcdef'' ! n"

definition hexlify :: "nat list \<Rightarrow> string" where
  "hexlify bs = ''0x'' @ concat (map (\<lambda>b. [hex_digit (b div 16), hex_digit (b mod 16)]) bs)"

definition ethers_splitSignature :: "string \<Rightarrow> (int \<times> string \<times> string) option" where
  "ethers_splitSignature sig =
     (case arrayify sig of
        None \<Rightarrow> None
      | Some bytes \<Rightarrow>
          if length bytes = 64 then
            Some (27 + int (bytes ! 32 div 128),
                  hexlify (take 32 bytes),
                  hexlify (take 32 (drop 32 (bytes[32 := bytes ! 32 mod 128]))))
          else if length bytes = 65 then
            (let v = bytes ! 64;
                 r = hexlify (take 32 bytes);
                 s = hexlify (take 32 (drop 32 bytes))
             in if v < 27 then (if v = 0 \<or> v = 1 then Some (int v + 27, r, s) else None)
                else Some (int v, r, s))
          else None)"

text \<open>
  An encoder to run concrete requests with, in place of the Seaport helper
  \<open>encodeBulkOrderProofAndSignature\<close>: it refuses a negative order index and joins the
  proof entries and the signature. The theorems on the dispatcher hold for every
  encoder.
\<close>

definition example_encode :: "int \<Rightarrow> string list \<Rightarrow> string \<Rightarrow> string option" where
  "example_encode i proof sig =
     (if i < 0 then None else Some (concat (map (\<lambda>p. p @ '','') proof) @ sig))"

fun example_kind_value :: "OrderKind \<Rightarrow> string" where
  "example_kind_value SeaportV15 = ''seaport-v1.5''"
| "example_kind_value LooksRareV2 = ''looks-rare-v2''"
| "example_kind_value X2Y2 = ''x2y2''"
| "example_kind_value Blur = ''blur''"
| "example_kind_value (OtherKind k) = k"

text \<open>Marketplace handlers whose network call fails.\<close>

definition example_imports ::
  "((PostOrderReq, json) HTTPClient, string) IPostOrderHandler Imports" where
  "example_imports =
     \<lparr>BASE_URL = ''https://data-api.nftgo.io'',
      splitSignature = ethers_splitSignature,
      encodeBulkOrderProofAndSignature = example_encode,
      handler_handle = (\<lambda>h ord. Inl (OtherError ''Request failed with status code 400'')),
      orderKind_value = example_kind_value\<rparr>"

text \<open>A backend that answers every request with \<open>SUCCESS\<close>.\<close>

definition example_client :: "(PostOrderReq, json) HTTPClient" where
  "example_client u body hs = Inr \<lparr>code = ''SUCCESS'', msg = ''ok'', res_data = JNull\<rparr>"

text \<open>A backend that answers every request with an error code.\<close>

definition failing_client :: "(PostOrderReq, json) HTTPClient" where
  "failing_client u body hs =
     Inr \<lparr>code = ''INVALID_API_KEY'', msg = ''invalid api key'', res_data = JNull\<rparr>"

text \<open>A configuration with keys for OpenSea and X2Y2 and none for LooksRare.\<close>

definition example_config :: "string ListingIndexerConfig" where
  "example_config =
     \<lparr>apiKey = ''key'', chain = None, baseUrl = None,
      openSeaApiKeyConfig = Some ''opensea-key'',
      looksRareApiKeyConfig = None,
      x2y2ApiKeyConfig = Some ''x2y2-key''\<rparr>"

definition example_dispatcher :: "((PostOrderReq, json) HTTPClient, string) PostOrderHandler" where
  "example_dispatcher = new_PostOrderHandler example_client example_config"

text \<open>A 65-byte signature: 32 bytes \<open>11\<close>, 32 bytes \<open>22\<close>, and \<open>v = 0x1b = 27\<close>.\<close>

definition example_r :: string where
  "example_r = ''0x'' @ concat (replicate 32 ''11'')"

definition example_s :: string where
  "example_s = ''0x'' @ concat (replicate 32 ''22'')"

definition example_signature :: string where
  "example_signature = ''0x'' @ concat (replicate 32 ''11'') @ concat (replicate 32 ''22'') @ ''1b''"

definition example_request :: "OrderKind \<Rightarrow> string \<Rightarrow> string option \<Rightarrow> BulkData option \<Rightarrow> PostOrderReq" where
  "example_request k ver sig bulk =
     \<lparr>order = \<lparr>kind = k, data = [(''price'', JString ''1000''), (''signature'', JString ''0x'')]\<rparr>,
      signature = sig, bulkData = bulk, extraArgs = \<lparr>version = ver\<rparr>\<rparr>"

definition example_bulk :: BulkData where
  "example_bulk =
     \<lparr>bulk_kind = ''seaport-v1.5'',
      bulk_data = \<lparr>orderIndex = 1, merkleProof = [''0xaa'', ''0xbb'']\<rparr>\<rparr>"

section \<open>The constructor\<close>

lemma new_PostOrderHandler_client [simp]: "client (new_PostOrderHandler c cfg) = c"
  by (simp add: new_PostOrderHandler_def Let_def)

lemma new_PostOrderHandler_config [simp]: "config (new_PostOrderHandler c cfg) = cfg"
  by (simp add: new_PostOrderHandler_def Let_def)

lemma new_PostOrderHandler_handlers:
  "handlers (new_PostOrderHandler c cfg) k =
     (if k = X2Y2 then map_option (X2Y2Handler c) (x2y2ApiKeyConfig cfg)
      else if k = LooksRareV2 then map_option (LooksRareV2Handler c) (looksRareApiKeyConfig cfg)
      else if k = SeaportV15 then map_option (SeaportV1D5Handler c) (openSeaApiKeyConfig cfg)
      else None)"
  by (simp add: new_PostOrderHandler_def Let_def split: option.splits)

lemma example_dispatcher_simps [simp]:
  "client example_dispatcher = example_client"
  "config example_dispatcher = example_config"
  "handlers example_dispatcher k =
     (if k = X2Y2 then Some (X2Y2Handler example_client ''x2y2-key'')
      else if k = SeaportV15 then Some (SeaportV1D5Handler example_client ''opensea-key'')
      else None)"
  by (auto simp add: example_dispatcher_def new_PostOrderHandler_handlers example_config_def)

lemma example_url [simp]:
  "get_url example_imports example_dispatcher = ''https://data-api.nftgo.io/aggregator/v1/eth/nft''"
  by (simp add: get_url_def example_imports_def example_config_def)

lemma example_headers [simp]:
  "get_headers example_dispatcher = [(''X-API-KEY'', ''key''), (''X-FROM'', ''js_sdk'')]"
  by (simp add: get_headers_def example_config_def)

section \<open>Properties of the embedded signature\<close>

lemma map_of_update_same: "map_of (AList.update k v al) k = Some v"
  by (simp add: update_conv')

lemma map_of_update_other: "k' \<noteq> k \<Longrightarrow> map_of (AList.update k v al) k' = map_of al k'"
  by (simp add: update_conv')

lemma spread_signature_fields:
  "map_of (spread_signature d sig v r s) ''signature'' = Some (JString sig)"
  "map_of (spread_signature d sig v r s) ''v'' = Some (JNumber v)"
  "map_of (spread_signature d sig v r s) ''r'' = Some (JString r)"
  "map_of (spread_signature d sig v r s) ''s'' = Some (JString s)"
  by (simp_all add: spread_signature_def update_conv')

lemma spread_signature_rest:
  "k \<notin> {''signature'', ''v'', ''r'', ''s''} \<Longrightarrow>
     map_of (spread_signature d sig v r s) k = map_of d k"
  by (simp add: spread_signature_def update_conv')

lemma order_set_data [simp]: "order (set_data params d) = \<lparr>kind = kind (order params), data = d\<rparr>"
  by (simp add: set_data_def)

section \<open>Routing\<close>

text \<open>
  C5. A request whose order kind is not Blur and has no handler in the dispatcher's map
  fails with \<open>InvalidParamError('order.kind', 'unsupported orderKind ' + kind)\<close>; nothing
  was sent, no handler was called, and the request is as it came in.
\<close>

theorem handle_unregistered_kind:
  assumes "kind (order params) \<noteq> Blur"
    and "handlers this (kind (order params)) = None"
  shows "handle I this params =
           \<lparr>settled = Inl (InvalidParamError ''order.kind''
                             (''unsupported orderKind '' @ orderKind_value I (kind (order params)))),
            this_out = this, effects = [], params_out = params, unawaited = []\<rparr>"
  using assms by (simp add: handle_def throw_def)

theorem handle_unregistered_kind_witness:
  "kind (order (example_request LooksRareV2 ''v3'' None None)) \<noteq> Blur
   \<and> handlers example_dispatcher (kind (order (example_request LooksRareV2 ''v3'' None None))) = None
   \<and> settled (handle example_imports example_dispatcher (example_request LooksRareV2 ''v3'' None None))
       = Inl (InvalidParamError ''order.kind'' ''unsupported orderKind looks-rare-v2'')
   \<and> effects (handle example_imports example_dispatcher (example_request LooksRareV2 ''v3'' None None)) = []"
proof -
  let ?p = "example_request LooksRareV2 ''v3'' None None"
  have k: "kind (order ?p) \<noteq> Blur"
    by (simp add: example_request_def)
  have h: "handlers example_dispatcher (kind (order ?p)) = None"
    by (simp add: example_request_def)
  have v: "orderKind_value example_imports (kind (order ?p)) = ''looks-rare-v2''"
    by (simp add: example_request_def example_imports_def)
  show ?thesis
    using k h handle_unregistered_kind [OF k h, of example_imports] by (simp add: v)
qed

text \<open>
  C6. A request of a registered kind other than Blur whose \<open>extraArgs.version\<close> is
  neither \<open>v3\<close> nor \<open>v4\<close> fails with
  \<open>InvalidParamError('extraArgs.version', 'unsupported version ' + version)\<close>, and no
  handler is called.
\<close>

theorem handle_unsupported_version:
  assumes "kind (order params) \<noteq> Blur"
    and "handlers this (kind (order params)) = Some handler"
    and "version (extraArgs params) \<noteq> ''v3''"
    and "version (extraArgs params) \<noteq> ''v4''"
  shows "handle I this params =
           \<lparr>settled = Inl (InvalidParamError ''extraArgs.version''
                             (''unsupported version '' @ version (extraArgs params))),
            this_out = this, effects = [], params_out = params, unawaited = []\<rparr>"
  using assms by (simp add: handle_def throw_def)

theorem handle_unsupported_version_witness:
  "kind (order (example_request X2Y2 ''v9'' (Some example_signature) None)) \<noteq> Blur
   \<and> handlers example_dispatcher (kind (order (example_request X2Y2 ''v9'' (Some example_signature) None)))
       = Some (X2Y2Handler example_client ''x2y2-key'')
   \<and> version (extraArgs (example_request X2Y2 ''v9'' (Some example_signature) None)) \<noteq> ''v3''
   \<and> version (extraArgs (example_request X2Y2 ''v9'' (Some example_signature) None)) \<noteq> ''v4''
   \<and> settled (handle example_imports example_dispatcher
                (example_request X2Y2 ''v9'' (Some example_signature) None))
       = Inl (InvalidParamError ''extraArgs.version'' ''unsupported version v9'')
   \<and> effects (handle example_imports example_dispatcher
                (example_request X2Y2 ''v9'' (Some example_signature) None)) = []"
proof -
  let ?p = "example_request X2Y2 ''v9'' (Some example_signature) None"
  have k: "kind (order ?p) \<noteq> Blur"
    by (simp add: example_request_def)
  have h: "handlers example_dispatcher (kind (order ?p)) = Some (X2Y2Handler example_client ''x2y2-key'')"
    by (simp add: example_request_def)
  have v3: "version (extraArgs ?p) \<noteq> ''v3''" and v4: "version (extraArgs ?p) \<noteq> ''v4''"
    by (simp_all add: example_request_def)
  have v: "version (extraArgs ?p) = ''v9''"
    by (simp add: example_request_def)
  show ?thesis
    using k h v3 v4 handle_unsupported_version [OF k h v3 v4, of example_imports]
    by (simp add: v)
qed

text \<open>
  C4. A request whose order kind is Blur is posted to the backend path
  \<open>/post-order/v1\<close>, as it came in and exactly once; the call leaves the request
  untouched, calls no protocol handler and starts nothing else; how it settles is
  decided by the backend's answer alone, whatever \<open>extraArgs.version\<close> is.
\<close>

theorem handle_blur:
  assumes "kind (order params) = Blur"
  shows "filter is_ClientPost (effects (handle I this params))
           = [ClientPost (get_url I this @ ''/post-order/v1'') params (get_headers this)]
       \<and> filter is_HandlerHandle (effects (handle I this params)) = []
       \<and> params_out (handle I this params) = params
       \<and> unawaited (handle I this params) = []
       \<and> settled (handle I this params)
           = (case client this (get_url I this @ ''/post-order/v1'') params (get_headers this) of
                Inl e \<Rightarrow> Inl e
              | Inr response \<Rightarrow>
                  if code response = ''SUCCESS''
                  then Inr (Some (JObject [(''message'', JString ''blur'')]))
                  else Inl (AggregatorApiException (msg response) (code response)
                              ''/post-order/v1''))"
  using assms by (simp add: handle_def post_def Let_def split: sum.splits)

theorem handle_blur_witness:
  "kind (order (example_request Blur ''v9'' (Some ''0x1234'') None)) = Blur
   \<and> filter is_ClientPost
        (effects (handle example_imports example_dispatcher
                    (example_request Blur ''v9'' (Some ''0x1234'') None)))
       = [ClientPost ''https://data-api.nftgo.io/aggregator/v1/eth/nft/post-order/v1''
            (example_request Blur ''v9'' (Some ''0x1234'') None)
            [(''X-API-KEY'', ''key''), (''X-FROM'', ''js_sdk'')]]
   \<and> params_out (handle example_imports example_dispatcher
                   (example_request Blur ''v9'' (Some ''0x1234'') None))
       = example_request Blur ''v9'' (Some ''0x1234'') None
   \<and> settled (handle example_imports example_dispatcher
                (example_request Blur ''v9'' (Some ''0x1234'') None))
       = Inr (Some (JObject [(''message'', JString ''blur'')]))"
proof -
  let ?p = "example_request Blur ''v9'' (Some ''0x1234'') None"
  have k: "kind (order ?p) = Blur"
    by (simp add: example_request_def)
  show ?thesis
    using k handle_blur [OF k, of example_imports example_dispatcher]
    by (simp add: example_client_def)
qed

section \<open>Signature embedding\<close>

text \<open>
  C3. For a \<open>v3\<close> request of a kind other than Blur with a registered handler and a
  signature string (defined and not empty, which is what \<open>if (signature)\<close> tests):
  when \<open>splitSignature\<close> gives \<open>v\<close>, \<open>r\<close>, \<open>s\<close>, the handler is called once, with the order
  whose data now holds \<open>signature\<close>, \<open>v\<close>, \<open>r\<close> and \<open>s\<close> and is otherwise as before; when
  \<open>splitSignature\<close> throws, the call fails with
  \<open>InvalidParamError('signature', 'invalid signature ' + signature)\<close> and the handler
  is not called.
\<close>

theorem handle_v3:
  assumes "kind (order params) \<noteq> Blur"
    and "handlers this (kind (order params)) = Some handler"
    and "version (extraArgs params) = ''v3''"
    and "signature params = Some sig"
    and "sig \<noteq> []"
  shows "(splitSignature I sig = Some (v, r, s) \<longrightarrow>
            (\<exists>d. handle I this params =
                   \<lparr>settled = Inr None, this_out = this,
                    effects = [HandlerHandle handler \<lparr>kind = kind (order params), data = d\<rparr>],
                    params_out = set_data params d,
                    unawaited = [handler_handle I handler \<lparr>kind = kind (order params), data = d\<rparr>]\<rparr>
                 \<and> map_of d ''signature'' = Some (JString sig)
                 \<and> map_of d ''v'' = Some (JNumber v)
                 \<and> map_of d ''r'' = Some (JString r)
                 \<and> map_of d ''s'' = Some (JString s)
                 \<and> (\<forall>k. k \<notin> {''signature'', ''v'', ''r'', ''s''} \<longrightarrow>
                        map_of d k = map_of (data (order params)) k)))
       \<and> (splitSignature I sig = None \<longrightarrow>
            handle I this params =
              \<lparr>settled = Inl (InvalidParamError ''signature'' (''invalid signature '' @ sig)),
               this_out = this, effects = [], params_out = params, unawaited = []\<rparr>)"
proof (intro conjI impI)
  assume split: "splitSignature I sig = Some (v, r, s)"
  let ?d = "spread_signature (data (order params)) sig v r s"
  have "handle I this params = call_handler I this handler (set_data params ?d)"
    using assms split by (simp add: handle_def embed_v3_def)
  then show "\<exists>d. handle I this params =
                   \<lparr>settled = Inr None, this_out = this,
                    effects = [HandlerHandle handler \<lparr>kind = kind (order params), data = d\<rparr>],
                    params_out = set_data params d,
                    unawaited = [handler_handle I handler \<lparr>kind = kind (order params), data = d\<rparr>]\<rparr>
                 \<and> map_of d ''signature'' = Some (JString sig)
                 \<and> map_of d ''v'' = Some (JNumber v)
                 \<and> map_of d ''r'' = Some (JString r)
                 \<and> map_of d ''s'' = Some (JString s)
                 \<and> (\<forall>k. k \<notin> {''signature'', ''v'', ''r'', ''s''} \<longrightarrow>
                        map_of d k = map_of (data (order params)) k)"
    by (intro exI [of _ ?d])
       (simp add: call_handler_def spread_signature_fields spread_signature_rest)
next
  assume "splitSignature I sig = None"
  then show "handle I this params =
              \<lparr>settled = Inl (InvalidParamError ''signature'' (''invalid signature '' @ sig)),
               this_out = this, effects = [], params_out = params, unawaited = []\<rparr>"
    using assms by (simp add: handle_def embed_v3_def throw_def)
qed

lemma split_example_signature:
  "splitSignature example_imports example_signature = Some (27, example_r, example_s)"
proof -
  have "ethers_splitSignature example_signature = Some (27, example_r, example_s)"
    by code_simp
  then show ?thesis by (simp add: example_imports_def)
qed

lemma split_short_signature: "splitSignature example_imports ''0x1234'' = None"
  by (simp add: example_imports_def ethers_splitSignature_def arrayify_def hex_value_def)

lemma example_signature_not_empty: "example_signature \<noteq> []"
  by (simp add: example_signature_def)

lemma example_request_simps [simp]:
  "kind (order (example_request k ver sig bulk)) = k"
  "data (order (example_request k ver sig bulk))
     = [(''price'', JString ''1000''), (''signature'', JString ''0x'')]"
  "signature (example_request k ver sig bulk) = sig"
  "bulkData (example_request k ver sig bulk) = bulk"
  "version (extraArgs (example_request k ver sig bulk)) = ver"
  by (simp_all add: example_request_def)

theorem handle_v3_witness:
  "splitSignature example_imports example_signature = Some (27, example_r, example_s)
   \<and> settled (handle example_imports example_dispatcher
                (example_request X2Y2 ''v3'' (Some example_signature) None)) = Inr None
   \<and> map_of (data (order (params_out (handle example_imports example_dispatcher
                (example_request X2Y2 ''v3'' (Some example_signature) None))))) ''v''
       = Some (JNumber 27)
   \<and> map_of (data (order (params_out (handle example_imports example_dispatcher
                (example_request X2Y2 ''v3'' (Some example_signature) None))))) ''price''
       = Some (JString ''1000'')
   \<and> splitSignature example_imports ''0x1234'' = None
   \<and> handle example_imports example_dispatcher (example_request X2Y2 ''v3'' (Some ''0x1234'') None)
       = \<lparr>settled = Inl (InvalidParamError ''signature'' ''invalid signature 0x1234''),
          this_out = example_dispatcher, effects = [],
          params_out = example_request X2Y2 ''v3'' (Some ''0x1234'') None, unawaited = []\<rparr>"
proof -
  let ?good = "example_request X2Y2 ''v3'' (Some example_signature) None"
  let ?bad = "example_request X2Y2 ''v3'' (Some ''0x1234'') None"
  let ?h = "X2Y2Handler example_client ''x2y2-key''"
  have k: "kind (order ?good) \<noteq> Blur"
    and h: "handlers example_dispatcher (kind (order ?good)) = Some ?h"
    and ver: "version (extraArgs ?good) = ''v3''"
    and sg: "signature ?good = Some example_signature"
    by simp_all
  note good_run = handle_v3 [OF k h ver sg example_signature_not_empty,
      of example_imports 27 example_r example_s]
  have "\<exists>d. handle example_imports example_dispatcher ?good =
           \<lparr>settled = Inr None, this_out = example_dispatcher,
            effects = [HandlerHandle ?h \<lparr>kind = kind (order ?good), data = d\<rparr>],
            params_out = set_data ?good d,
            unawaited = [handler_handle example_imports ?h \<lparr>kind = kind (order ?good), data = d\<rparr>]\<rparr>
         \<and> map_of d ''signature'' = Some (JString example_signature)
         \<and> map_of d ''v'' = Some (JNumber 27)
         \<and> map_of d ''r'' = Some (JString example_r)
         \<and> map_of d ''s'' = Some (JString example_s)
         \<and> (\<forall>k. k \<notin> {''signature'', ''v'', ''r'', ''s''} \<longrightarrow>
                map_of d k = map_of (data (order ?good)) k)"
    by (rule mp [OF conjunct1 [OF good_run] split_example_signature])
  then obtain d where run:
      "handle example_imports example_dispatcher ?good =
         \<lparr>settled = Inr None, this_out = example_dispatcher,
          effects = [HandlerHandle ?h \<lparr>kind = kind (order ?good), data = d\<rparr>],
          params_out = set_data ?good d,
          unawaited = [handler_handle example_imports ?h \<lparr>kind = kind (order ?good), data = d\<rparr>]\<rparr>"
    and v: "map_of d ''v'' = Some (JNumber 27)"
    and rest: "\<forall>k. k \<notin> {''signature'', ''v'', ''r'', ''s''} \<longrightarrow>
                 map_of d k = map_of (data (order ?good)) k"
    by blast
  have price: "map_of d ''price'' = Some (JString ''1000'')"
    using rest by simp
  have k': "kind (order ?bad) \<noteq> Blur"
    and h': "handlers example_dispatcher (kind (order ?bad)) = Some ?h"
    and ver': "version (extraArgs ?bad) = ''v3''"
    and sg': "signature ?bad = Some ''0x1234''"
    and ne': "''0x1234'' \<noteq> []"
    by simp_all
  have bad:
    "handle example_imports example_dispatcher ?bad =
       \<lparr>settled = Inl (InvalidParamError ''signature'' (''invalid signature '' @ ''0x1234'')),
        this_out = example_dispatcher, effects = [], params_out = ?bad, unawaited = []\<rparr>"
    by (rule mp [OF conjunct2 [OF handle_v3 [OF k' h' ver' sg' ne', of example_imports]]
          split_short_signature])
  show ?thesis
    using split_example_signature split_short_signature bad
    by (simp add: run v price)
qed

text \<open>
  C1, as the code has it. For a \<open>v4\<close> request of a kind other than Blur with a
  registered handler: the signature is split first, whatever \<open>bulkData\<close> is, and a
  signature that \<open>splitSignature\<close> refuses fails the call with
  \<open>InvalidParamError('signature', ...)\<close>. With an accepted signature and
  \<open>bulkData.kind = 'seaport-v1.5'\<close>, \<open>order.data.signature\<close> becomes the string that
  \<open>encodeBulkOrderProofAndSignature(orderIndex, merkleProof, signature)\<close> returns, the
  rest of \<open>order.data\<close> stays, and the handler is called with that order. With
  \<open>bulkData\<close> absent or of another kind, the call does what the \<open>v3\<close> branch does on
  the same request: same settlement, same effects, same order afterwards.
\<close>

theorem handle_v4:
  assumes "kind (order params) \<noteq> Blur"
    and "handlers this (kind (order params)) = Some handler"
    and "version (extraArgs params) = ''v4''"
  shows "(signature params = Some sig \<and> sig \<noteq> [] \<and> splitSignature I sig = None \<longrightarrow>
            handle I this params =
              \<lparr>settled = Inl (InvalidParamError ''signature'' (''invalid signature '' @ sig)),
               this_out = this, effects = [], params_out = params, unawaited = []\<rparr>)
       \<and> (signature params = Some sig \<and> sig \<noteq> [] \<and> splitSignature I sig = Some vrs
            \<and> bulkData params = Some b \<and> bulk_kind b = ''seaport-v1.5''
            \<and> encodeBulkOrderProofAndSignature I
                 (orderIndex (bulk_data b)) (merkleProof (bulk_data b)) sig = Some packed \<longrightarrow>
            (\<exists>d. handle I this params =
                   \<lparr>settled = Inr None, this_out = this,
                    effects = [HandlerHandle handler \<lparr>kind = kind (order params), data = d\<rparr>],
                    params_out = set_data params d,
                    unawaited = [handler_handle I handler \<lparr>kind = kind (order params), data = d\<rparr>]\<rparr>
                 \<and> map_of d ''signature'' = Some (JString packed)
                 \<and> (\<forall>k. k \<noteq> ''signature'' \<longrightarrow> map_of d k = map_of (data (order params)) k)))
       \<and> (\<not> is_seaport_bulk params \<longrightarrow>
            settled (handle I this params)
              = settled (handle I this (params\<lparr>extraArgs := \<lparr>version = ''v3''\<rparr>\<rparr>))
            \<and> effects (handle I this params)
              = effects (handle I this (params\<lparr>extraArgs := \<lparr>version = ''v3''\<rparr>\<rparr>))
            \<and> unawaited (handle I this params)
              = unawaited (handle I this (params\<lparr>extraArgs := \<lparr>version = ''v3''\<rparr>\<rparr>))
            \<and> order (params_out (handle I this params))
              = order (params_out (handle I this (params\<lparr>extraArgs := \<lparr>version = ''v3''\<rparr>\<rparr>))))"
proof (intro conjI impI)
  assume "signature params = Some sig \<and> sig \<noteq> [] \<and> splitSignature I sig = None"
  then show "handle I this params =
              \<lparr>settled = Inl (InvalidParamError ''signature'' (''invalid signature '' @ sig)),
               this_out = this, effects = [], params_out = params, unawaited = []\<rparr>"
    using assms by (simp add: handle_def embed_v4_def throw_def)
next
  assume bulk: "signature params = Some sig \<and> sig \<noteq> [] \<and> splitSignature I sig = Some vrs
            \<and> bulkData params = Some b \<and> bulk_kind b = ''seaport-v1.5''
            \<and> encodeBulkOrderProofAndSignature I
                 (orderIndex (bulk_data b)) (merkleProof (bulk_data b)) sig = Some packed"
  let ?d = "AList.update ''signature'' (JString packed) (data (order params))"
  have "handle I this params = call_handler I this handler (set_data params ?d)"
    using assms bulk by (cases vrs) (simp add: handle_def embed_v4_def)
  then show "\<exists>d. handle I this params =
                   \<lparr>settled = Inr None, this_out = this,
                    effects = [HandlerHandle handler \<lparr>kind = kind (order params), data = d\<rparr>],
                    params_out = set_data params d,
                    unawaited = [handler_handle I handler \<lparr>kind = kind (order params), data = d\<rparr>]\<rparr>
                 \<and> map_of d ''signature'' = Some (JString packed)
                 \<and> (\<forall>k. k \<noteq> ''signature'' \<longrightarrow> map_of d k = map_of (data (order params)) k)"
    by (intro exI [of _ ?d])
       (simp add: call_handler_def map_of_update_same map_of_update_other)
next
  assume nb: "\<not> is_seaport_bulk params"
  let ?p3 = "params\<lparr>extraArgs := \<lparr>version = ''v3''\<rparr>\<rparr>"
  have e: "embed_v4 I params x = embed_v3 I params x" for x
  proof (cases "bulkData params")
    case None
    then show ?thesis
      by (simp add: embed_v4_def embed_v3_def split: option.splits)
  next
    case (Some b')
    with nb have "bulk_kind b' \<noteq> ''seaport-v1.5''"
      by (simp add: is_seaport_bulk_def)
    with Some show ?thesis
      by (simp add: embed_v4_def embed_v3_def split: option.splits)
  qed
  have e3: "embed_v3 I ?p3 x = map_sum id (\<lambda>q. q\<lparr>extraArgs := \<lparr>version = ''v3''\<rparr>\<rparr>) (embed_v3 I params x)" for x
    by (simp add: embed_v3_def set_data_def split: option.splits)
  have h4: "handle I this params =
              (case signature params of
                 None \<Rightarrow> call_handler I this handler params
               | Some x \<Rightarrow>
                   if x = [] then call_handler I this handler params
                   else (case embed_v3 I params x of
                           Inl e \<Rightarrow> throw this params e
                         | Inr q \<Rightarrow> call_handler I this handler q))"
    using assms by (simp add: handle_def e split: option.splits)
  have h3: "handle I this ?p3 =
              (case signature params of
                 None \<Rightarrow> call_handler I this handler ?p3
               | Some x \<Rightarrow>
                   if x = [] then call_handler I this handler ?p3
                   else (case embed_v3 I params x of
                           Inl e \<Rightarrow> throw this ?p3 e
                         | Inr q \<Rightarrow> call_handler I this handler (q\<lparr>extraArgs := \<lparr>version = ''v3''\<rparr>\<rparr>)))"
    using assms by (simp add: handle_def e3 split: option.splits sum.splits)
  show "settled (handle I this params) = settled (handle I this ?p3)"
    by (simp add: h4 h3 call_handler_def throw_def split: option.splits sum.splits)
  show "effects (handle I this params) = effects (handle I this ?p3)"
    by (simp add: h4 h3 call_handler_def throw_def split: option.splits sum.splits)
  show "unawaited (handle I this params) = unawaited (handle I this ?p3)"
    by (simp add: h4 h3 call_handler_def throw_def split: option.splits sum.splits)
  show "order (params_out (handle I this params)) = order (params_out (handle I this ?p3))"
    by (simp add: h4 h3 call_handler_def throw_def split: option.splits sum.splits)
qed

lemma example_bulk_simps [simp]:
  "bulk_kind example_bulk = ''seaport-v1.5''"
  "orderIndex (bulk_data example_bulk) = 1"
  "merkleProof (bulk_data example_bulk) = [''0xaa'', ''0xbb'']"
  by (simp_all add: example_bulk_def)

lemma example_encode_bulk:
  "encodeBulkOrderProofAndSignature example_imports 1 [''0xaa'', ''0xbb''] sig
     = Some (''0xaa,0xbb,'' @ sig)"
  by (simp add: example_imports_def example_encode_def)

theorem handle_v4_witness:
  "handle example_imports example_dispatcher
       (example_request SeaportV15 ''v4'' (Some ''0x1234'') (Some example_bulk))
     = \<lparr>settled = Inl (InvalidParamError ''signature'' ''invalid signature 0x1234''),
        this_out = example_dispatcher, effects = [],
        params_out = example_request SeaportV15 ''v4'' (Some ''0x1234'') (Some example_bulk),
        unawaited = []\<rparr>
   \<and> settled (handle example_imports example_dispatcher
                (example_request SeaportV15 ''v4'' (Some example_signature) (Some example_bulk)))
       = Inr None
   \<and> map_of (data (order (params_out (handle example_imports example_dispatcher
                (example_request SeaportV15 ''v4'' (Some example_signature) (Some example_bulk))))))
         ''signature''
       = Some (JString (''0xaa,0xbb,'' @ example_signature))
   \<and> map_of (data (order (params_out (handle example_imports example_dispatcher
                (example_request SeaportV15 ''v4'' (Some example_signature) (Some example_bulk))))))
         ''v''
       = None
   \<and> \<not> is_seaport_bulk (example_request X2Y2 ''v4'' (Some example_signature) None)
   \<and> effects (handle example_imports example_dispatcher
                (example_request X2Y2 ''v4'' (Some example_signature) None))
       = effects (handle example_imports example_dispatcher
                   (example_request X2Y2 ''v3'' (Some example_signature) None))"
proof -
  let ?bad = "example_request SeaportV15 ''v4'' (Some ''0x1234'') (Some example_bulk)"
  let ?bulk = "example_request SeaportV15 ''v4'' (Some example_signature) (Some example_bulk)"
  let ?plain = "example_request X2Y2 ''v4'' (Some example_signature) None"
  let ?sea = "SeaportV1D5Handler example_client ''opensea-key''"
  let ?x2y2 = "X2Y2Handler example_client ''x2y2-key''"
  have kb: "kind (order ?bad) \<noteq> Blur"
    and hb: "handlers example_dispatcher (kind (order ?bad)) = Some ?sea"
    and vb: "version (extraArgs ?bad) = ''v4''"
    by simp_all
  have bad_pre: "signature ?bad = Some ''0x1234'' \<and> ''0x1234'' \<noteq> []
                   \<and> splitSignature example_imports ''0x1234'' = None"
    using split_short_signature by simp
  have bad:
    "handle example_imports example_dispatcher ?bad =
       \<lparr>settled = Inl (InvalidParamError ''signature'' (''invalid signature '' @ ''0x1234'')),
        this_out = example_dispatcher, effects = [], params_out = ?bad, unawaited = []\<rparr>"
    by (rule mp [OF conjunct1 [OF handle_v4 [OF kb hb vb]] bad_pre])
  have ku: "kind (order ?bulk) \<noteq> Blur"
    and hu: "handlers example_dispatcher (kind (order ?bulk)) = Some ?sea"
    and vu: "version (extraArgs ?bulk) = ''v4''"
    by simp_all
  have bulk_pre:
    "signature ?bulk = Some example_signature \<and> example_signature \<noteq> []
       \<and> splitSignature example_imports example_signature = Some (27, example_r, example_s)
       \<and> bulkData ?bulk = Some example_bulk \<and> bulk_kind example_bulk = ''seaport-v1.5''
       \<and> encodeBulkOrderProofAndSignature example_imports
            (orderIndex (bulk_data example_bulk)) (merkleProof (bulk_data example_bulk))
            example_signature = Some (''0xaa,0xbb,'' @ example_signature)"
    using split_example_signature example_signature_not_empty example_encode_bulk by simp
  have "\<exists>d. handle example_imports example_dispatcher ?bulk =
           \<lparr>settled = Inr None, this_out = example_dispatcher,
            effects = [HandlerHandle ?sea \<lparr>kind = kind (order ?bulk), data = d\<rparr>],
            params_out = set_data ?bulk d,
            unawaited = [handler_handle example_imports ?sea \<lparr>kind = kind (order ?bulk), data = d\<rparr>]\<rparr>
         \<and> map_of d ''signature'' = Some (JString (''0xaa,0xbb,'' @ example_signature))
         \<and> (\<forall>k. k \<noteq> ''signature'' \<longrightarrow> map_of d k = map_of (data (order ?bulk)) k)"
    by (rule mp [OF conjunct1 [OF conjunct2 [OF handle_v4 [OF ku hu vu]]] bulk_pre])
  then obtain d where run:
      "handle example_imports example_dispatcher ?bulk =
         \<lparr>settled = Inr None, this_out = example_dispatcher,
          effects = [HandlerHandle ?sea \<lparr>kind = kind (order ?bulk), data = d\<rparr>],
          params_out = set_data ?bulk d,
          unawaited = [handler_handle example_imports ?sea \<lparr>kind = kind (order ?bulk), data = d\<rparr>]\<rparr>"
    and packed: "map_of d ''signature'' = Some (JString (''0xaa,0xbb,'' @ example_signature))"
    and rest: "\<forall>k. k \<noteq> ''signature'' \<longrightarrow> map_of d k = map_of (data (order ?bulk)) k"
    by blast
  have no_v: "map_of d ''v'' = None"
    using rest by simp
  have kp: "kind (order ?plain) \<noteq> Blur"
    and hp: "handlers example_dispatcher (kind (order ?plain)) = Some ?x2y2"
    and vp: "version (extraArgs ?plain) = ''v4''"
    by simp_all
  have not_bulk: "\<not> is_seaport_bulk ?plain"
    by (simp add: is_seaport_bulk_def)
  have as_v3: "?plain\<lparr>extraArgs := \<lparr>version = ''v3''\<rparr>\<rparr>
                 = example_request X2Y2 ''v3'' (Some example_signature) None"
    by (simp add: example_request_def)
  have same:
    "effects (handle example_imports example_dispatcher ?plain)
       = effects (handle example_imports example_dispatcher (?plain\<lparr>extraArgs := \<lparr>version = ''v3''\<rparr>\<rparr>))"
    using mp [OF conjunct2 [OF conjunct2 [OF handle_v4 [OF kp hp vp]]] not_bulk]
    by (rule conjunct1 [OF conjunct2])
  show ?thesis
    using bad not_bulk same by (simp add: run packed no_v as_v3)
qed

text \<open>
  C1, as stated, at a \<open>v4\<close> request for Seaport with \<open>bulkData.kind = 'seaport-v1.5'\<close>
  and the present signature \<open>0x1234\<close>, which \<open>splitSignature\<close> refuses: the call fails,
  and \<open>order.data.signature\<close> is what it was, not the packed encoding.
\<close>

theorem handle_v4_bulk_counterexample:
  "version (extraArgs (example_request SeaportV15 ''v4'' (Some ''0x1234'') (Some example_bulk))) = ''v4''
   \<and> signature (example_request SeaportV15 ''v4'' (Some ''0x1234'') (Some example_bulk))
       = Some ''0x1234''
   \<and> is_seaport_bulk (example_request SeaportV15 ''v4'' (Some ''0x1234'') (Some example_bulk))
   \<and> encodeBulkOrderProofAndSignature example_imports 1 [''0xaa'', ''0xbb''] ''0x1234''
       = Some ''0xaa,0xbb,0x1234''
   \<and> settled (handle example_imports example_dispatcher
                (example_request SeaportV15 ''v4'' (Some ''0x1234'') (Some example_bulk)))
       = Inl (InvalidParamError ''signature'' ''invalid signature 0x1234'')
   \<and> map_of (data (order (params_out (handle example_imports example_dispatcher
                (example_request SeaportV15 ''v4'' (Some ''0x1234'') (Some example_bulk))))))
         ''signature''
       = Some (JString ''0x'')
   \<and> effects (handle example_imports example_dispatcher
                (example_request SeaportV15 ''v4'' (Some ''0x1234'') (Some example_bulk))) = []"
proof -
  let ?p = "example_request SeaportV15 ''v4'' (Some ''0x1234'') (Some example_bulk)"
  have e: "embed_v4 example_imports ?p ''0x1234''
             = Inl (InvalidParamError ''signature'' ''invalid signature 0x1234'')"
    using split_short_signature by (simp add: embed_v4_def)
  have run: "handle example_imports example_dispatcher ?p
               = throw example_dispatcher ?p
                   (InvalidParamError ''signature'' ''invalid signature 0x1234'')"
    by (simp add: handle_def e)
  show ?thesis
    using example_encode_bulk [of "''0x1234''"]
    by (simp add: run throw_def is_seaport_bulk_def)
qed

section \<open>The backend call\<close>

text \<open>
  C7, as the code has it. \<open>post\<close> hands the client one request: the URL is
  \<open>baseUrl\<close> (or \<open>BASE_URL\<close> when the configuration has none), then
  \<open>/aggregator/v1/\<close>, the chain (\<open>eth\<close> when the configuration has none), \<open>/nft\<close> and
  the path; the body is \<open>params\<close>; the headers are \<open>X-API-KEY\<close> with the configured key
  and \<open>X-FROM\<close> with \<open>js_sdk\<close>. On an answer \<open>{code, msg, data}\<close> it returns \<open>data\<close> when
  \<open>code\<close> is \<open>SUCCESS\<close> and otherwise fails with
  \<open>AggregatorApiException(msg, code, path)\<close>; a rejection of the client is passed on.
\<close>

theorem post_request_and_result:
  "effects (post I this path params)
     = [ClientPost
          ((case baseUrl (config this) of Some b \<Rightarrow> b | None \<Rightarrow> BASE_URL I)
             @ ''/aggregator/v1/''
             @ (case chain (config this) of Some c \<Rightarrow> chain_value c | None \<Rightarrow> ''eth'')
             @ ''/nft'' @ path)
          params
          [(''X-API-KEY'', apiKey (config this)), (''X-FROM'', ''js_sdk'')]]
   \<and> (client this (get_url I this @ path) params (get_headers this) = Inr response \<longrightarrow>
        settled (post I this path params)
          = (if code response = ''SUCCESS'' then Inr (res_data response)
             else Inl (AggregatorApiException (msg response) (code response) path)))
   \<and> (client this (get_url I this @ path) params (get_headers this) = Inl e \<longrightarrow>
        settled (post I this path params) = Inl e)"
  by (simp add: post_def get_url_def get_headers_def Let_def split: sum.splits option.splits)

lemma failing_dispatcher_simps [simp]:
  "get_url example_imports (new_PostOrderHandler failing_client example_config)
     = ''https://data-api.nftgo.io/aggregator/v1/eth/nft''"
  "get_headers (new_PostOrderHandler failing_client example_config)
     = [(''X-API-KEY'', ''key''), (''X-FROM'', ''js_sdk'')]"
  by (simp_all add: get_url_def get_headers_def example_imports_def example_config_def)

theorem post_request_and_result_witness:
  "client example_dispatcher
       (get_url example_imports example_dispatcher @ ''/post-order/v1'')
       (example_request Blur ''v3'' None None) (get_headers example_dispatcher)
     = Inr \<lparr>code = ''SUCCESS'', msg = ''ok'', res_data = JNull\<rparr>
   \<and> settled (post example_imports example_dispatcher ''/post-order/v1''
                (example_request Blur ''v3'' None None)) = Inr JNull
   \<and> client (new_PostOrderHandler failing_client example_config)
        (get_url example_imports (new_PostOrderHandler failing_client example_config)
           @ ''/post-order/v1'')
        (example_request Blur ''v3'' None None)
        (get_headers (new_PostOrderHandler failing_client example_config))
     = Inr \<lparr>code = ''INVALID_API_KEY'', msg = ''invalid api key'', res_data = JNull\<rparr>
   \<and> settled (post example_imports (new_PostOrderHandler failing_client example_config)
                ''/post-order/v1'' (example_request Blur ''v3'' None None))
       = Inl (AggregatorApiException ''invalid api key'' ''INVALID_API_KEY'' ''/post-order/v1'')"
proof -
  let ?p = "example_request Blur ''v3'' None None"
  let ?bad = "new_PostOrderHandler failing_client example_config"
  let ?ok_res = "\<lparr>code = ''SUCCESS'', msg = ''ok'', res_data = JNull\<rparr>"
  let ?bad_res = "\<lparr>code = ''INVALID_API_KEY'', msg = ''invalid api key'', res_data = JNull\<rparr>"
  have ok: "client example_dispatcher
              (get_url example_imports example_dispatcher @ ''/post-order/v1'') ?p
              (get_headers example_dispatcher) = Inr ?ok_res"
    by (simp add: example_client_def)
  have ok_run:
    "settled (post example_imports example_dispatcher ''/post-order/v1'' ?p)
       = (if code ?ok_res = ''SUCCESS'' then Inr (res_data ?ok_res)
          else Inl (AggregatorApiException (msg ?ok_res) (code ?ok_res) ''/post-order/v1''))"
    by (rule mp [OF conjunct1 [OF conjunct2 [OF post_request_and_result]] ok])
  have bad: "client ?bad (get_url example_imports ?bad @ ''/post-order/v1'') ?p (get_headers ?bad)
               = Inr ?bad_res"
    by (simp add: failing_client_def)
  have bad_run:
    "settled (post example_imports ?bad ''/post-order/v1'' ?p)
       = (if code ?bad_res = ''SUCCESS'' then Inr (res_data ?bad_res)
          else Inl (AggregatorApiException (msg ?bad_res) (code ?bad_res) ''/post-order/v1''))"
    by (rule mp [OF conjunct1 [OF conjunct2 [OF post_request_and_result]] bad])
  show ?thesis
    using ok bad by (simp add: ok_run bad_run)
qed

text \<open>
  C7, as stated, at a Blur request: the header \<open>X-FROM\<close> that \<open>post\<close>
  sends is \<open>js_sdk\<close>, so the request is not the one with \<open>X-FROM: sdk-tag\<close>.
\<close>

theorem post_headers_counterexample:
  "effects (post example_imports example_dispatcher ''/post-order/v1''
              (example_request Blur ''v3'' None None))
     = [ClientPost ''https://data-api.nftgo.io/aggregator/v1/eth/nft/post-order/v1''
          (example_request Blur ''v3'' None None)
          [(''X-API-KEY'', ''key''), (''X-FROM'', ''js_sdk'')]]
   \<and> effects (post example_imports example_dispatcher ''/post-order/v1''
              (example_request Blur ''v3'' None None))
     \<noteq> [ClientPost ''https://data-api.nftgo.io/aggregator/v1/eth/nft/post-order/v1''
          (example_request Blur ''v3'' None None)
          [(''X-API-KEY'', ''key''), (''X-FROM'', ''sdk-tag'')]]"
  by (simp add: post_def Let_def example_client_def)

section \<open>The handler registry\<close>

lemma handle_this_out: "this_out (handle I this params) = this"
  by (simp add: handle_def post_def call_handler_def throw_def Let_def
      split: sum.splits option.splits)

lemma post_this_out: "this_out (post I this path params) = this"
  by (simp add: post_def Let_def split: sum.splits)

text \<open>
  C8. The dispatcher built from a configuration has a handler for \<open>SeaportV15\<close>,
  \<open>LooksRareV2\<close>, \<open>X2Y2\<close> exactly when \<open>openSeaApiKeyConfig\<close>, \<open>looksRareApiKeyConfig\<close>,
  \<open>x2y2ApiKeyConfig\<close> is supplied, and for no other kind; \<open>handle\<close> and \<open>post\<close>, the
  operations of the class, leave the map as the constructor built it.
\<close>

theorem registry_fixed_at_construction:
  "(handlers (new_PostOrderHandler c cfg) SeaportV15 \<noteq> None) = (openSeaApiKeyConfig cfg \<noteq> None)
   \<and> (handlers (new_PostOrderHandler c cfg) LooksRareV2 \<noteq> None) = (looksRareApiKeyConfig cfg \<noteq> None)
   \<and> (handlers (new_PostOrderHandler c cfg) X2Y2 \<noteq> None) = (x2y2ApiKeyConfig cfg \<noteq> None)
   \<and> handlers (new_PostOrderHandler c cfg) Blur = None
   \<and> handlers (new_PostOrderHandler c cfg) (OtherKind x) = None
   \<and> handlers (this_out (handle I (new_PostOrderHandler c' cfg) params))
       = handlers (new_PostOrderHandler c' cfg)
   \<and> handlers (this_out (post I' (new_PostOrderHandler c'' cfg) path body))
       = handlers (new_PostOrderHandler c'' cfg)"
  by (simp add: new_PostOrderHandler_handlers handle_this_out post_this_out)

theorem registry_fixed_at_construction_witness:
  "handlers (new_PostOrderHandler example_client example_config) SeaportV15 \<noteq> None
   \<and> handlers (new_PostOrderHandler example_client example_config) LooksRareV2 = None
   \<and> handlers (new_PostOrderHandler example_client example_config) X2Y2 \<noteq> None
   \<and> handlers (new_PostOrderHandler example_client example_config) (OtherKind ''zora'') = None
   \<and> handlers (this_out (handle example_imports
                  (new_PostOrderHandler example_client example_config)
                  (example_request X2Y2 ''v3'' (Some example_signature) None))) LooksRareV2
       = None"
proof -
  have cfg: "openSeaApiKeyConfig example_config \<noteq> None"
    "looksRareApiKeyConfig example_config = None"
    "x2y2ApiKeyConfig example_config \<noteq> None"
    by (simp_all add: example_config_def)
  show ?thesis
    using registry_fixed_at_construction
      [of example_client example_config "''zora''" example_imports example_client
        "example_request X2Y2 ''v3'' (Some example_signature) None"
        example_imports example_client "''/post-order/v1''"
        "example_request Blur ''v3'' None None"]
      cfg
    by simp
qed

section \<open>The handler's outcome\<close>

text \<open>
  Outside the Blur branch the settlement of \<open>handle\<close>, its effects and the request it
  leaves are the same whatever the protocol handlers' calls come to.
\<close>

lemma handle_regardless_of_handler:
  assumes "kind (order params) \<noteq> Blur"
  shows "settled (handle (I\<lparr>handler_handle := f\<rparr>) this params)
           = settled (handle (I\<lparr>handler_handle := g\<rparr>) this params)"
  using assms
  by (simp add: handle_def call_handler_def throw_def embed_v3_def embed_v4_def
      split: option.splits sum.splits prod.splits)

text \<open>
  C9, on the code. An X2Y2 request of version \<open>v3\<close> with a good signature, posted
  through handlers whose network call fails: the handler is called with the order,
  its promise is rejected, and the promise of \<open>handle\<close> is fulfilled with \<open>undefined\<close>.
\<close>

theorem handle_drops_handler_rejection:
  "filter is_HandlerHandle
       (effects (handle example_imports example_dispatcher
                  (example_request X2Y2 ''v3'' (Some example_signature) None)))
     = [HandlerHandle (X2Y2Handler example_client ''x2y2-key'')
          (order (params_out (handle example_imports example_dispatcher
                    (example_request X2Y2 ''v3'' (Some example_signature) None))))]
   \<and> handler_handle example_imports (X2Y2Handler example_client ''x2y2-key'')
        (order (params_out (handle example_imports example_dispatcher
                  (example_request X2Y2 ''v3'' (Some example_signature) None))))
       = Inl (OtherError ''Request failed with status code 400'')
   \<and> unawaited (handle example_imports example_dispatcher
                  (example_request X2Y2 ''v3'' (Some example_signature) None))
       = [Inl (OtherError ''Request failed with status code 400'')]
   \<and> settled (handle example_imports example_dispatcher
                (example_request X2Y2 ''v3'' (Some example_signature) None))
       = Inr None"
proof -
  let ?p = "example_request X2Y2 ''v3'' (Some example_signature) None"
  let ?d = "spread_signature (data (order ?p)) example_signature 27 example_r example_s"
  have e: "embed_v3 example_imports ?p example_signature = Inr (set_data ?p ?d)"
    using split_example_signature by (simp add: embed_v3_def)
  have run: "handle example_imports example_dispatcher ?p
               = call_handler example_imports example_dispatcher
                   (X2Y2Handler example_client ''x2y2-key'') (set_data ?p ?d)"
    using example_signature_not_empty by (simp add: handle_def e)
  have rejected: "handler_handle example_imports h ord
                    = Inl (OtherError ''Request failed with status code 400'')" for h ord
    by (simp add: example_imports_def)
  show ?thesis
    by (simp add: run call_handler_def rejected)
qed

section \<open>Properties of the listing indexer\<close>

text \<open>
  C10. \<open>prepareListing([])\<close> fails with the \<open>InvalidParamError\<close> whose message is
  \<open>The param 'nfts' is invalid. nfts should not be empty\<close>, whatever the classification
  would do, and with no effect.
\<close>

theorem prepareListing_empty:
  "fst (prepareListing classify []) = Inl (InvalidParamError ''nfts'' ''nfts should not be empty'')
   \<and> invalidParamError_message ''nfts'' ''nfts should not be empty''
       = ''The param 'nfts' is invalid. nfts should not be empty''
   \<and> snd (prepareListing classify []) = []"
  by (simp add: prepareListing_def invalidParamError_message_def)

lemma listing_loop_eq:
  "listing_loop attempt xs i sc fl
     = (sc @ filter (\<lambda>j. \<not> isl (attempt (xs ! (j - i)))) [i..<i + length xs],
        fl @ filter (\<lambda>j. isl (attempt (xs ! (j - i)))) [i..<i + length xs])"
proof (induction xs arbitrary: i sc fl)
  case Nil
  then show ?case by simp
next
  case (Cons x xs)
  have upt: "[i..<Suc (i + length xs)] = i # [Suc i..<Suc (i + length xs)]"
    by (subst upt_rec) (simp del: upt_Suc)
  have nth: "(x # xs) ! (j - i) = xs ! (j - Suc i)" if "Suc i \<le> j" for j
  proof -
    from that have "j - i = Suc (j - Suc i)"
      by arith
    then show ?thesis by simp
  qed
  have shift: "filter (\<lambda>j. P ((x # xs) ! (j - i))) [Suc i..<Suc (i + length xs)]
                 = filter (\<lambda>j. P (xs ! (j - Suc i))) [Suc i..<Suc (i + length xs)]" for P
    by (rule filter_cong [OF refl]) (simp add: nth del: upt_Suc)
  note shifts = shift [of "\<lambda>y. isl (attempt y)"] shift [of "\<lambda>y. \<not> isl (attempt y)"]
  show ?case
    by (cases "attempt x") (simp_all add: Cons.IH upt shifts del: upt_Suc)
qed

lemma length_filter_nth:
  "length (filter (\<lambda>j. P (xs ! j)) [0..<length xs]) = length (filter P xs)"
proof -
  have "filter P xs = filter P (map ((!) xs) [0..<length xs])"
    by (simp add: map_nth)
  also have "\<dots> = map ((!) xs) (filter (\<lambda>j. P (xs ! j)) [0..<length xs])"
    by (simp add: filter_map comp_def)
  finally show ?thesis by simp
qed

lemma length_filter_mono:
  assumes "\<forall>x\<in>set xs. P x \<longrightarrow> Q x"
  shows "length (filter P xs) \<le> length (filter Q xs)"
  using assms by (induction xs) auto

text \<open>
  The loop itself. On a batch that is not empty \<open>bulkListing\<close> returns two index
  lists without repetitions that together hold exactly the indexes \<open>0..N-1\<close> and share
  none; an index is in \<open>failIndexes\<close> exactly when the attempt on that item failed.
\<close>

lemma bulkListing_partition:
  assumes "orders \<noteq> []"
  shows "\<exists>successIndexes failIndexes.
           bulkListing attempt orders = Inr (successIndexes, failIndexes)
         \<and> set successIndexes \<union> set failIndexes = {0..<length orders}
         \<and> set successIndexes \<inter> set failIndexes = {}
         \<and> distinct successIndexes \<and> distinct failIndexes
         \<and> (\<forall>i<length orders. (i \<in> set failIndexes) = isl (attempt (orders ! i)))
         \<and> ((\<forall>x\<in>set orders. malformed x \<longrightarrow> isl (attempt x)) \<longrightarrow>
               length (filter malformed orders) \<le> card (set failIndexes))"
proof -
  let ?s = "filter (\<lambda>j. \<not> isl (attempt (orders ! j))) [0..<length orders]"
  let ?f = "filter (\<lambda>j. isl (attempt (orders ! j))) [0..<length orders]"
  have run: "bulkListing attempt orders = Inr (?s, ?f)"
    using assms by (simp add: bulkListing_def listing_loop_eq)
  have cover: "set ?s \<union> set ?f = {0..<length orders}"
    by auto
  have apart: "set ?s \<inter> set ?f = {}"
    by auto
  have dist: "distinct ?s" "distinct ?f"
    by simp_all
  have member: "\<forall>i<length orders. (i \<in> set ?f) = isl (attempt (orders ! i))"
    by simp
  have count: "length (filter malformed orders) \<le> card (set ?f)"
    if "\<forall>x\<in>set orders. malformed x \<longrightarrow> isl (attempt x)"
  proof -
    have "length (filter malformed orders) \<le> length (filter (\<lambda>x. isl (attempt x)) orders)"
      using that by (rule length_filter_mono)
    also have "\<dots> = length ?f"
      by (rule length_filter_nth [symmetric])
    also have "\<dots> = card (set ?f)"
      using dist(2) by (rule distinct_card [symmetric])
    finally show ?thesis .
  qed
  show ?thesis
    using run cover apart dist member count by blast
qed

text \<open>
  What the attempt sees of the dispatcher does not depend on the protocol handlers:
  the settlement of \<open>handle\<close> is the same whatever their calls come to.
\<close>

lemma postListingOrder_regardless_of_handler:
  "postListingOrder (I\<lparr>handler_handle := f\<rparr>) this params
     = postListingOrder (I\<lparr>handler_handle := g\<rparr>) this params"
proof (cases "kind (order params) = Blur")
  case True
  have "get_url (I\<lparr>handler_handle := f\<rparr>) this = get_url (I\<lparr>handler_handle := g\<rparr>) this"
    by (simp add: get_url_def split: option.splits)
  with True show ?thesis
    by (simp add: postListingOrder_def handle_def post_def Let_def split: sum.splits)
next
  case False
  then show ?thesis
    by (simp add: postListingOrder_def handle_regardless_of_handler [where f = f and g = g])
qed

lemma bulkListing_regardless_of_handler:
  "bulkListing (postListingOrder (I\<lparr>handler_handle := f\<rparr>) this) orders
     = bulkListing (postListingOrder (I\<lparr>handler_handle := g\<rparr>) this) orders"
proof -
  have "postListingOrder (I\<lparr>handler_handle := f\<rparr>) this
          = postListingOrder (I\<lparr>handler_handle := g\<rparr>) this"
    by (rule ext) (rule postListingOrder_regardless_of_handler)
  then show ?thesis by simp
qed

text \<open>
  With the dispatcher as the attempt, the orders the dispatcher itself refuses are in
  \<open>failIndexes\<close>: a batch with \<open>k\<close> orders of a kind that is not Blur and has no
  handler gives at least \<open>k\<close> failures.
\<close>

lemma bulkListing_unregistered_kinds:
  assumes "orders \<noteq> []"
  shows "\<exists>successIndexes failIndexes.
           bulkListing (postListingOrder I this) orders = Inr (successIndexes, failIndexes)
         \<and> set successIndexes \<union> set failIndexes = {0..<length orders}
         \<and> set successIndexes \<inter> set failIndexes = {}
         \<and> length (filter (\<lambda>p. kind (order p) \<noteq> Blur
                                \<and> handlers this (kind (order p)) = None) orders)
               \<le> card (set failIndexes)"
proof -
  let ?bad = "\<lambda>p. kind (order p) \<noteq> Blur \<and> handlers this (kind (order p)) = None"
  have fails: "\<forall>x\<in>set orders. ?bad x \<longrightarrow> isl (postListingOrder I this x)"
    by (simp add: postListingOrder_def handle_def throw_def)
  show ?thesis
    using bulkListing_partition [OF assms, of "postListingOrder I this" ?bad] fails
    by blast
qed

text \<open>
  C2, on the code. A batch of one signed X2Y2 order, posted through the dispatcher
  with a handler whose network call is refused: the handler's promise is rejected,
  and \<open>bulkListing\<close> reports index 0 as a success and no failure.
\<close>

theorem bulkListing_misses_posting_failure:
  "handler_handle example_imports (X2Y2Handler example_client ''x2y2-key'')
       (order (params_out (handle example_imports example_dispatcher
                 (example_request X2Y2 ''v3'' (Some example_signature) None))))
     = Inl (OtherError ''Request failed with status code 400'')
   \<and> postListingOrder example_imports example_dispatcher
        (example_request X2Y2 ''v3'' (Some example_signature) None)
     = Inr None
   \<and> bulkListing (postListingOrder example_imports example_dispatcher)
        [example_request X2Y2 ''v3'' (Some example_signature) None]
     = Inr ([0], [])"
proof -
  let ?p = "example_request X2Y2 ''v3'' (Some example_signature) None"
  let ?d = "spread_signature (data (order ?p)) example_signature 27 example_r example_s"
  have e: "embed_v3 example_imports ?p example_signature = Inr (set_data ?p ?d)"
    using split_example_signature by (simp add: embed_v3_def)
  have run: "handle example_imports example_dispatcher ?p
               = call_handler example_imports example_dispatcher
                   (X2Y2Handler example_client ''x2y2-key'') (set_data ?p ?d)"
    using example_signature_not_empty by (simp add: handle_def e)
  have rejected: "handler_handle example_imports h ord
                    = Inl (OtherError ''Request failed with status code 400'')" for h ord
    by (simp add: example_imports_def)
  have attempt: "postListingOrder example_imports example_dispatcher ?p = Inr None"
    by (simp add: postListingOrder_def run call_handler_def)
  show ?thesis
    by (simp add: rejected attempt bulkListing_def)
qed

end
